theory Spec2Isabelle
  imports Complex_Main
begin

section \<open>Hydraulic rating curves of a cross-section: the computation core of profile.py\<close>

text \<open>
  The development embeds \<^verbatim>\<open>hydraulic/profile.py\<close>: the classes \<^verbatim>\<open>WaterSection\<close> and
  \<^verbatim>\<open>Calculation\<close> and the level loop of \<^verbatim>\<open>Morfostvor.calculate\<close>.

  Python floats are idealised as real numbers: \<^verbatim>\<open>+\<close>, \<^verbatim>\<open>-\<close>, \<^verbatim>\<open>*\<close>, \<^verbatim>\<open>/\<close> are exact.
  The coordinates and the metrics of a water section are reals. The outputs of
  \<^verbatim>\<open>Calculation\<close> can leave the reals (a zero base under a negative exponent, a negative
  radicand, a logarithm of a non-positive number) and are values of \<open>pyfloat\<close>, which has
  the infinities and NaN.

  The two module-level switches \<^verbatim>\<open>config.OVERFLOW\<close> and \<^verbatim>\<open>config.CALC_TYPE\<close> are
  explicit parameters of the functions that read them. Every \<^verbatim>\<open>sys.exit\<close> and every
  exception is a value of \<open>error\<close>. The rating table has real columns; a row whose
  velocity, discharge or coefficient is not a finite real is the value \<open>NonFinite\<close>.
\<close>

subsection \<open>Errors and Python list primitives\<close>

datatype error =
    ExitInvalidLevel   \<comment> \<open>\<^verbatim>\<open>sys.exit(1)\<close> in \<^verbatim>\<open>boundary\<close>: level below the lowest bottom point\<close>
  | ExitBoundary       \<comment> \<open>\<^verbatim>\<open>sys.exit(2)\<close>: \<^verbatim>\<open>IndexError\<close> caught around \<^verbatim>\<open>_calculate_parameters\<close>\<close>
  | ExitCalcType       \<comment> \<open>\<^verbatim>\<open>sys.exit(1)\<close> in \<^verbatim>\<open>Calculation\<close>: unknown \<^verbatim>\<open>CALC_TYPE\<close>\<close>
  | IndexError
  | ValueError
  | TypeError
  | ZeroDivisionError
  | NonFinite          \<comment> \<open>not an exit of the program: a value that is no finite real, see \<open>compute_row\<close>\<close>

definition bindE :: "error + 'a \<Rightarrow> ('a \<Rightarrow> error + 'b) \<Rightarrow> error + 'b" where
  "bindE m f = (case m of Inl e \<Rightarrow> Inl e | Inr a \<Rightarrow> f a)"

text \<open>\<^verbatim>\<open>xs[i]\<close>: a negative index counts from the end, an index out of range raises.\<close>

definition item :: "'a list \<Rightarrow> int \<Rightarrow> error + 'a" where
  "item xs i =
     (if 0 \<le> i \<and> i < int (length xs) then Inr (xs ! nat i)
      else if - int (length xs) \<le> i \<and> i < 0 then Inr (xs ! nat (int (length xs) + i))
      else Inl IndexError)"

text \<open>\<^verbatim>\<open>xs[a:b]\<close>: bounds are clamped to the list, negative bounds count from the end.\<close>

definition slice_bound :: "nat \<Rightarrow> int \<Rightarrow> nat" where
  "slice_bound n a = (if a < 0 then nat (max 0 (int n + a)) else min (nat a) n)"

definition slice :: "'a list \<Rightarrow> int \<Rightarrow> int \<Rightarrow> 'a list" where
  "slice xs a b =
     (let lo = slice_bound (length xs) a; hi = slice_bound (length xs) b
      in take (hi - lo) (drop lo xs))"

text \<open>\<^verbatim>\<open>xs.insert(k, v)\<close> for \<open>0 \<le> k\<close>: beyond the end it appends.\<close>

definition insert_at :: "nat \<Rightarrow> 'a \<Rightarrow> 'a list \<Rightarrow> 'a list" where
  "insert_at k v xs = take k xs @ v # drop k xs"

text \<open>\<^verbatim>\<open>min(ys)\<close>, \<^verbatim>\<open>max(ys)\<close> (a \<^verbatim>\<open>ValueError\<close> on the empty list is raised by the
  callers below) and \<^verbatim>\<open>ys.index(v)\<close>, the first position of \<open>v\<close>.\<close>

fun py_min :: "real list \<Rightarrow> real" where
  "py_min [] = 0"
| "py_min [v] = v"
| "py_min (v # w # ws) = min v (py_min (w # ws))"

fun py_max :: "real list \<Rightarrow> real" where
  "py_max [] = 0"
| "py_max [v] = v"
| "py_max (v # w # ws) = max v (py_max (w # ws))"

fun py_index :: "real list \<Rightarrow> real \<Rightarrow> nat" where
  "py_index [] v = 0"
| "py_index (w # ws) v = (if w = v then 0 else Suc (py_index ws v))"

text \<open>A \<^verbatim>\<open>for\<close> loop over a range whose body may \<^verbatim>\<open>break\<close> with a value: the body
  returns \<open>Some b\<close> to break, \<open>None\<close> to go on, or an error.\<close>

fun for_break :: "(nat \<Rightarrow> error + 'a option) \<Rightarrow> nat list \<Rightarrow> error + 'a option" where
  "for_break body [] = Inr None"
| "for_break body (i # js) =
     (case body i of
        Inl e \<Rightarrow> Inl e
      | Inr (Some b) \<Rightarrow> Inr (Some b)
      | Inr None \<Rightarrow> for_break body js)"

subsection \<open>Library functions the source imports\<close>

text \<open>
  \<^verbatim>\<open>scipy.interpolate.interp1d([ya, yb], [xa, xb])\<close> evaluated at \<open>v\<close>: linear
  interpolation between the two samples; outside the samples' range it raises
  \<^verbatim>\<open>ValueError\<close>. For two equal abscissae scipy hands the float data to
  \<^verbatim>\<open>numpy.interp\<close>, which returns the ordinate of the last sample.
\<close>

definition interp1d :: "real \<Rightarrow> real \<Rightarrow> real \<Rightarrow> real \<Rightarrow> real \<Rightarrow> error + real" where
  "interp1d ya yb xa xb v =
     (if v < min ya yb \<or> max ya yb < v then Inl ValueError
      else if ya = yb then Inr xb
      else Inr (xa + (v - ya) * (xb - xa) / (yb - ya)))"

text \<open>
  Modelled from the spec: \<^verbatim>\<open>poly_area\<close> is imported from \<^verbatim>\<open>hydraulic/lib.py\<close>, which is
  not among the sources. The specification calls it the shoelace polygon-area formula
  over the closed wetted polygon: half the absolute value of the cyclic sum of
  \<open>x\<^sub>i * y\<^sub>i\<^sub>+\<^sub>1 - x\<^sub>i\<^sub>+\<^sub>1 * y\<^sub>i\<close>.
\<close>

definition poly_area :: "real list \<Rightarrow> real list \<Rightarrow> real" where
  "poly_area xs ys =
     \<bar>sum_list (map2 (*) xs (rotate1 ys)) - sum_list (map2 (*) (rotate1 xs) ys)\<bar> / 2"

subsection \<open>WaterSection\<close>

text \<open>
  The dataclass \<^verbatim>\<open>WaterSection\<close>. The inputs \<^verbatim>\<open>x\<close>, \<^verbatim>\<open>y\<close>, \<^verbatim>\<open>water_level\<close> and
  \<^verbatim>\<open>start_point\<close> are arguments of the functions; the record holds what construction
  computes. \<open>wet_perimeter\<close> is the declared field (default \<^verbatim>\<open>0.0\<close>); \<open>w_perimeter\<close> is
  the attribute that \<^verbatim>\<open>_calculate_parameters\<close> creates.
\<close>

record water_section =
  water_section_x :: "real list"
  water_section_y :: "real list"
  width :: real
  area :: real
  average_depth :: real
  max_depth :: real
  wet_perimeter :: real
  r_hydraulic :: real
  w_perimeter :: real

text \<open>One entry of the list that \<^verbatim>\<open>boundary\<close> returns:
  \<^verbatim>\<open>[water_boundary_x, water_boundary_y, water_boundary_points, 0]\<close>.\<close>

record water_boundary =
  water_boundary_x :: "real list"
  water_boundary_y :: "real list"
  water_boundary_points :: "int list"
  water_boundary_count :: nat

text \<open>The body of the loop to the left of the start point, at index \<open>i\<close>; \<open>sp\<close> is
  \<^verbatim>\<open>start_point[0]\<close>. \<^verbatim>\<open>and\<close> evaluates its right operand only when the left one holds.\<close>

definition left_body ::
  "real list \<Rightarrow> real list \<Rightarrow> real \<Rightarrow> nat \<Rightarrow> nat \<Rightarrow> error + (real \<times> int) option" where
  "left_body x y wl sp i =
     bindE (if sp = 0 then bindE (item y (int sp)) (\<lambda>v. Inr (v \<le> wl)) else Inr False) (\<lambda>at_left.
     if at_left then bindE (item x 0) (\<lambda>x0. Inr (Some (x0, 0)))
     else
     bindE (bindE (item y (int i - 1)) (\<lambda>y1.
              if y1 \<ge> wl then bindE (item y (int i)) (\<lambda>y2. Inr (y2 \<le> wl)) else Inr False)) (\<lambda>crossing.
     if crossing then
       bindE (item x (int i - 1)) (\<lambda>x1. bindE (item x (int i)) (\<lambda>x2.
       bindE (item y (int i - 1)) (\<lambda>y1. bindE (item y (int i)) (\<lambda>y2.
       bindE (interp1d y1 y2 x1 x2 wl) (\<lambda>xb. Inr (Some (xb, int i - 1)))))))
     else
     bindE (if int i - 1 = 0 then bindE (item y (int i - 1)) (\<lambda>y1. Inr (y1 \<le> wl)) else Inr False) (\<lambda>at_start.
     if at_start then bindE (item x (int i - 1)) (\<lambda>x1. Inr (Some (x1, int i - 1)))
     else Inr None)))"

text \<open>The body of the loop to the right of the start point, at index \<open>i\<close>.\<close>

definition right_body ::
  "real list \<Rightarrow> real list \<Rightarrow> real \<Rightarrow> nat \<Rightarrow> error + (real \<times> int) option" where
  "right_body x y wl i =
     bindE (bindE (item y (int i)) (\<lambda>y1.
              if y1 \<le> wl then bindE (item y (int i + 1)) (\<lambda>y2. Inr (y2 \<ge> wl)) else Inr False)) (\<lambda>crossing.
     if crossing then
       bindE (item x (int i)) (\<lambda>x1. bindE (item x (int i + 1)) (\<lambda>x2.
       bindE (item y (int i)) (\<lambda>y1. bindE (item y (int i + 1)) (\<lambda>y2.
       bindE (interp1d y1 y2 x1 x2 wl) (\<lambda>xb. Inr (Some (xb, int i)))))))
     else
     bindE (if int i + 1 = int (length y) - 1
            then bindE (item y (int (length y) - 1)) (\<lambda>yl. Inr (yl \<le> wl)) else Inr False) (\<lambda>at_end.
     if at_end then bindE (item x (int (length x) - 1)) (\<lambda>xl. Inr (Some (xl, int i + 1)))
     else Inr None))"

text \<open>After the two loops: the start point is the last point of the polyline.\<close>

definition right_end ::
  "real list \<Rightarrow> real list \<Rightarrow> real \<Rightarrow> nat \<Rightarrow> error + (real \<times> int) option" where
  "right_end x y wl sp =
     bindE (if int sp = int (length y) - 1 then bindE (item y (int sp)) (\<lambda>v. Inr (v \<le> wl))
            else Inr False) (\<lambda>at_right.
     if at_right then bindE (item x (int (length y) - 1)) (\<lambda>xl. Inr (Some (xl, int (length y) - 1)))
     else Inr None)"

text \<open>What a loop appends to the three lists: nothing, or one boundary.\<close>

definition found_x :: "(real \<times> int) option \<Rightarrow> real list" where
  "found_x b = (case b of None \<Rightarrow> [] | Some (bx, p) \<Rightarrow> [bx])"

definition found_y :: "real \<Rightarrow> (real \<times> int) option \<Rightarrow> real list" where
  "found_y wl b = (case b of None \<Rightarrow> [] | Some (bx, p) \<Rightarrow> [wl])"

definition found_p :: "(real \<times> int) option \<Rightarrow> int list" where
  "found_p b = (case b of None \<Rightarrow> [] | Some (bx, p) \<Rightarrow> [p])"

text \<open>\<^verbatim>\<open>WaterSection.boundary\<close>. \<open>start_point\<close> is \<open>None\<close> for the empty default and
  \<open>Some sp\<close> for \<^verbatim>\<open>[sp, elevation]\<close>, of which the code reads the index only.\<close>

definition boundary ::
  "real list \<Rightarrow> real list \<Rightarrow> real \<Rightarrow> nat option \<Rightarrow> error + water_boundary list" where
  "boundary x y wl start_point =
     (if y = [] then Inl ValueError
      else
        let sp = (case start_point of None \<Rightarrow> py_index y (py_min y) | Some s \<Rightarrow> s) in
        if wl < py_min y then Inl ExitInvalidLevel
        else
          bindE (for_break (left_body x y wl sp) (rev [0..<Suc sp])) (\<lambda>l.
          bindE (for_break (right_body x y wl) [sp..<length y - 1]) (\<lambda>r.
          bindE (right_end x y wl sp) (\<lambda>e.
          Inr [\<lparr>water_boundary_x = found_x l @ found_x r @ found_x e,
                water_boundary_y = found_y wl l @ found_y wl r @ found_y wl e,
                water_boundary_points = found_p l @ found_p r @ found_p e,
                water_boundary_count = 0\<rparr>]))))"

text \<open>An \<^verbatim>\<open>IndexError\<close> inside \<^verbatim>\<open>_calculate_parameters\<close> is caught by the constructor,
  which exits with status 2.\<close>

definition caught :: "error + 'a \<Rightarrow> error + 'a" where
  "caught m = (case m of Inl IndexError \<Rightarrow> Inl ExitBoundary | _ \<Rightarrow> m)"

text \<open>The sum of squared successive differences accumulated in \<^verbatim>\<open>sum_sqr\<close>.\<close>

fun sum_sqr :: "real list \<Rightarrow> real" where
  "sum_sqr (a # b # cs) = (b - a)\<^sup>2 + sum_sqr (b # cs)"
| "sum_sqr cs = 0"

text \<open>The numerical floor of \<^verbatim>\<open>average_depth\<close> and \<^verbatim>\<open>r_hydraulic\<close>: the quotient when
  both operands are positive, else 0, and 0 is replaced by \<^verbatim>\<open>0.00001\<close>.\<close>

definition floor_ratio :: "real \<Rightarrow> real \<Rightarrow> real" where
  "floor_ratio a b =
     (let r = (if a > 0 \<and> b > 0 then a / b else 0) in if r = 0 then 0.00001 else r)"

text \<open>\<^verbatim>\<open>WaterSection._calculate_parameters\<close>; \<open>overflow\<close> is \<^verbatim>\<open>config.OVERFLOW\<close>.\<close>

definition calculate_parameters ::
  "bool \<Rightarrow> real list \<Rightarrow> real list \<Rightarrow> real \<Rightarrow> water_boundary \<Rightarrow> error + water_section" where
  "calculate_parameters overflow x y wl wb =
     bindE (item (water_boundary_x wb) 0) (\<lambda>x1. bindE (item (water_boundary_x wb) 1) (\<lambda>x2.
     bindE (item (water_boundary_y wb) 0) (\<lambda>y1. bindE (item (water_boundary_y wb) 1) (\<lambda>y2.
     bindE (item (water_boundary_points wb) 0) (\<lambda>p0. bindE (item (water_boundary_points wb) 1) (\<lambda>p1.
     let wsx0 = x1 # slice x (p0 + 1) (p1 + 1) @ [x2];
         wsy0 = y1 # slice y (p0 + 1) (p1 + 1) @ [y2]
     in
     bindE (bindE (item y (if overflow then p0 else 0)) (\<lambda>yl.
              if wl > yl
              then bindE (item x 0) (\<lambda>xf. bindE (item y 0) (\<lambda>yf.
                     Inr (insert_at 1 xf wsx0, insert_at 1 yf wsy0)))
              else Inr (wsx0, wsy0))) (\<lambda>(wsx1, wsy1).
     bindE (if water_boundary_count wb > 1
            then bindE (item y (- 1)) (\<lambda>yl.
                   if wl > yl
                   then bindE (item x (- 1)) (\<lambda>xl.
                          Inr (insert_at (length wsx1 - 1) xl wsx1,
                               insert_at (length wsy1 - 1) yl wsy1))
                   else Inr (wsx1, wsy1))
            else Inr (wsx1, wsy1)) (\<lambda>(wsx, wsy).
     let wd = x2 - x1;
         ar = poly_area wsx wsy;
         depth = map (\<lambda>v. wl - v) wsy;
         wp = sqrt (sum_sqr wsx)
     in
     Inr \<lparr>water_section_x = wsx, water_section_y = wsy,
          width = wd, area = ar,
          average_depth = floor_ratio ar wd,
          max_depth = py_max depth,
          wet_perimeter = 0,
          r_hydraulic = floor_ratio ar wp,
          w_perimeter = wp\<rparr>))))))))"

text \<open>
  \<^verbatim>\<open>WaterSection.__post_init__\<close>. With more than one entry in the boundary list every
  entry is processed in turn, each call overwriting the attributes with floats, and
  \<^verbatim>\<open>sum(self.width)\<close> then raises \<^verbatim>\<open>TypeError\<close>. With one entry its parameters are the
  result.
\<close>

definition WaterSection ::
  "bool \<Rightarrow> real list \<Rightarrow> real list \<Rightarrow> real \<Rightarrow> nat option \<Rightarrow> error + water_section" where
  "WaterSection overflow x y wl start_point =
     bindE (boundary x y wl start_point) (\<lambda>bs.
       if length bs > 1
       then bindE (fold (\<lambda>wb acc. bindE acc (\<lambda>_.
                              bindE (caught (calculate_parameters overflow x y wl wb)) (\<lambda>_. Inr ())))
                     bs (Inr ()))
              (\<lambda>_. Inl TypeError)
       else caught (bindE (item bs 0) (calculate_parameters overflow x y wl)))"

subsection \<open>Float values beyond the reals\<close>

text \<open>
  A float is a real number (\<open>Fin\<close>, rounding left out), one of the two infinities or NaN.
  \<open>PyComplex\<close> stands for a Python complex number, which \<^verbatim>\<open>float ** float\<close> returns for
  a negative base and a non-integer exponent; the model does not look into it. The
  operations follow IEEE 754 as numpy applies it, without signed zeros.
\<close>

datatype pyfloat = Fin real | PosInf | NegInf | NaN | PyComplex

text \<open>The product of an infinity with a finite factor of the given sign.\<close>

definition signed_inf :: "real \<Rightarrow> pyfloat" where
  "signed_inf s = (if s > 0 then PosInf else if s < 0 then NegInf else NaN)"

fun fl_neg :: "pyfloat \<Rightarrow> pyfloat" where
  "fl_neg (Fin a) = Fin (- a)"
| "fl_neg PosInf = NegInf"
| "fl_neg NegInf = PosInf"
| "fl_neg NaN = NaN"
| "fl_neg PyComplex = PyComplex"

fun fl_mul :: "pyfloat \<Rightarrow> pyfloat \<Rightarrow> pyfloat" where
  "fl_mul PyComplex b = PyComplex"
| "fl_mul a PyComplex = PyComplex"
| "fl_mul NaN b = NaN"
| "fl_mul a NaN = NaN"
| "fl_mul (Fin a) (Fin b) = Fin (a * b)"
| "fl_mul (Fin a) PosInf = signed_inf a"
| "fl_mul (Fin a) NegInf = signed_inf (- a)"
| "fl_mul PosInf (Fin b) = signed_inf b"
| "fl_mul NegInf (Fin b) = signed_inf (- b)"
| "fl_mul PosInf PosInf = PosInf"
| "fl_mul PosInf NegInf = NegInf"
| "fl_mul NegInf PosInf = NegInf"
| "fl_mul NegInf NegInf = PosInf"

fun fl_add :: "pyfloat \<Rightarrow> pyfloat \<Rightarrow> pyfloat" where
  "fl_add PyComplex b = PyComplex"
| "fl_add a PyComplex = PyComplex"
| "fl_add NaN b = NaN"
| "fl_add a NaN = NaN"
| "fl_add (Fin a) (Fin b) = Fin (a + b)"
| "fl_add (Fin a) PosInf = PosInf"
| "fl_add (Fin a) NegInf = NegInf"
| "fl_add PosInf (Fin b) = PosInf"
| "fl_add NegInf (Fin b) = NegInf"
| "fl_add PosInf PosInf = PosInf"
| "fl_add PosInf NegInf = NaN"
| "fl_add NegInf PosInf = NaN"
| "fl_add NegInf NegInf = NegInf"

definition fl_sub :: "pyfloat \<Rightarrow> pyfloat \<Rightarrow> pyfloat" where
  "fl_sub a b = fl_add a (fl_neg b)"

text \<open>\<^verbatim>\<open>a ** 2\<close> for a numpy float.\<close>

definition fl_sq :: "pyfloat \<Rightarrow> pyfloat" where
  "fl_sq a = fl_mul a a"

text \<open>Division of numpy floats: a zero divisor gives an infinity or NaN, not an exception.\<close>

fun fl_div :: "pyfloat \<Rightarrow> pyfloat \<Rightarrow> pyfloat" where
  "fl_div PyComplex b = PyComplex"
| "fl_div a PyComplex = PyComplex"
| "fl_div NaN b = NaN"
| "fl_div a NaN = NaN"
| "fl_div (Fin a) (Fin b) = (if b = 0 then signed_inf a else Fin (a / b))"
| "fl_div (Fin a) PosInf = Fin 0"
| "fl_div (Fin a) NegInf = Fin 0"
| "fl_div PosInf (Fin b) = (if b < 0 then NegInf else PosInf)"
| "fl_div NegInf (Fin b) = (if b < 0 then PosInf else NegInf)"
| "fl_div PosInf PosInf = NaN"
| "fl_div PosInf NegInf = NaN"
| "fl_div NegInf PosInf = NaN"
| "fl_div NegInf NegInf = NaN"

text \<open>\<^verbatim>\<open>np.sqrt\<close> and \<^verbatim>\<open>np.log10\<close>: NaN below zero, and \<^verbatim>\<open>log10(0) = -inf\<close>.\<close>

fun np_sqrt :: "pyfloat \<Rightarrow> pyfloat" where
  "np_sqrt (Fin a) = (if a < 0 then NaN else Fin (sqrt a))"
| "np_sqrt PosInf = PosInf"
| "np_sqrt NegInf = NaN"
| "np_sqrt NaN = NaN"
| "np_sqrt PyComplex = PyComplex"

fun np_log10 :: "pyfloat \<Rightarrow> pyfloat" where
  "np_log10 (Fin a) = (if a > 0 then Fin (log 10 a) else if a = 0 then NegInf else NaN)"
| "np_log10 PosInf = PosInf"
| "np_log10 NegInf = NaN"
| "np_log10 NaN = NaN"
| "np_log10 PyComplex = PyComplex"

text \<open>
  \<^verbatim>\<open>b ** e\<close> for a float \<open>b\<close> and a numpy exponent \<open>e\<close>, as in \<^verbatim>\<open>self.h ** y\<close> where
  \<^verbatim>\<open>y\<close> comes out of \<^verbatim>\<open>np.sqrt\<close> or \<^verbatim>\<open>np.log10\<close>: the power is numpy's. A zero exponent
  gives 1, a zero base under a negative exponent gives \<^verbatim>\<open>inf\<close>, a negative base gives a
  real power for an integer exponent and NaN otherwise, and \<^verbatim>\<open>1 ** nan\<close> is 1.
\<close>

fun np_pow :: "real \<Rightarrow> pyfloat \<Rightarrow> pyfloat" where
  "np_pow b (Fin e) =
     (if e = 0 then Fin 1
      else if b > 0 then Fin (b powr e)
      else if b = 0 then (if e > 0 then Fin 0 else PosInf)
      else if of_int \<lfloor>e\<rfloor> = e then Fin ((if even \<lfloor>e\<rfloor> then 1 else - 1) * (- b) powr e)
      else NaN)"
| "np_pow b PosInf = (if \<bar>b\<bar> < 1 then Fin 0 else if \<bar>b\<bar> > 1 then PosInf else Fin 1)"
| "np_pow b NegInf = (if \<bar>b\<bar> < 1 then PosInf else if \<bar>b\<bar> > 1 then Fin 0 else Fin 1)"
| "np_pow b NaN = (if b = 1 then Fin 1 else NaN)"
| "np_pow b PyComplex = PyComplex"

text \<open>
  \<^verbatim>\<open>b ** e\<close> for two Python floats and a positive, non-integer exponent \<open>e\<close>, as in
  \<^verbatim>\<open>self.h ** 0.67\<close> and \<^verbatim>\<open>(self.i / 1000) ** 0.17\<close>: a negative base gives a
  complex number.
\<close>

definition py_pow :: "real \<Rightarrow> real \<Rightarrow> pyfloat" where
  "py_pow b e = (if b < 0 then PyComplex else Fin (b powr e))"

subsection \<open>Calculation\<close>

text \<open>The inputs \<^verbatim>\<open>n\<close>, \<^verbatim>\<open>i\<close>, \<^verbatim>\<open>h\<close>, \<^verbatim>\<open>a\<close> of the dataclass \<^verbatim>\<open>Calculation\<close> are finite
  Python floats. The record holds its outputs: \<open>shezi\<close>, and \<^verbatim>\<open>v\<close> and \<^verbatim>\<open>q\<close> under the
  names \<open>calc_v\<close> and \<open>calc_q\<close>. \<open>grav\<close> is the field \<^verbatim>\<open>_g\<close>.\<close>

record calculation =
  shezi :: pyfloat
  calc_v :: pyfloat
  calc_q :: pyfloat

definition grav :: real where
  "grav = 9.80665"

text \<open>\<^verbatim>\<open>__shezi_pavlovskij\<close> and \<^verbatim>\<open>__shezi_pavlovskij_zheleznjakov\<close>; \<^verbatim>\<open>1 / self.n\<close> divides
  Python floats and raises for a zero roughness.\<close>

definition shezi_pavlovskij :: "real \<Rightarrow> real \<Rightarrow> error + pyfloat" where
  "shezi_pavlovskij n h =
     (let y = fl_sub (fl_sub (fl_mul (Fin 2.5) (np_sqrt (Fin n))) (Fin 0.13))
                (fl_mul (fl_mul (Fin 0.75) (np_sqrt (Fin h)))
                   (fl_sub (np_sqrt (Fin n)) (Fin 0.10)))
      in if n = 0 then Inl ZeroDivisionError else Inr (fl_mul (Fin (1 / n)) (np_pow h y)))"

definition shezi_pavlovskij_zheleznjakov :: "real \<Rightarrow> real \<Rightarrow> error + pyfloat" where
  "shezi_pavlovskij_zheleznjakov n h =
     (if n = 0 then Inl ZeroDivisionError
      else
        let lg = np_log10 (Fin h);
            y = fl_mul (fl_div (Fin 1) lg)
                  (np_log10
                     (fl_add
                        (fl_sub (Fin (1 / 2))
                           (fl_mul (Fin (n * sqrt grav / 0.26)) (fl_sub (Fin 1) lg)))
                        (fl_mul (Fin n)
                           (np_sqrt
                              (fl_add
                                 (fl_mul (Fin (1 / 4))
                                    (fl_sq (fl_sub (Fin (1 / n))
                                       (fl_mul (Fin (sqrt grav / 0.13)) (fl_sub (Fin 1) lg)))))
                                 (fl_mul (Fin (sqrt grav / 0.13))
                                    (fl_add (Fin (1 / n)) (fl_mul (Fin (sqrt grav)) lg))))))))
        in Inr (fl_mul (Fin (1 / n)) (np_pow h y)))"

text \<open>\<^verbatim>\<open>Calculation.__post_init__\<close>; \<open>calc_type\<close> is \<^verbatim>\<open>config.CALC_TYPE\<close>.\<close>

definition Calculation :: "int \<Rightarrow> real \<Rightarrow> real \<Rightarrow> real \<Rightarrow> real \<Rightarrow> error + calculation" where
  "Calculation calc_type n i h a =
     bindE (if h \<ge> 0 \<and> h \<le> 3 then shezi_pavlovskij n h
            else shezi_pavlovskij_zheleznjakov n h) (\<lambda>c.
     bindE (if calc_type = 1 then Inr (fl_mul c (np_sqrt (Fin (h * (i / 1000)))))
            else if calc_type = 2
            then Inr (fl_mul (fl_mul (Fin 4.5) (py_pow h 0.67)) (py_pow (i / 1000) 0.17))
            else if calc_type = 3
            then Inr (fl_mul (fl_mul (Fin 3.75) (py_pow h 0.50)) (py_pow (i / 1000) 0.17))
            else Inl ExitCalcType) (\<lambda>v.
     Inr \<lparr>shezi = c, calc_v = v, calc_q = fl_mul (Fin a) v\<rparr>))"

subsection \<open>Morfostvor.calculate\<close>


text \<open>A cell of the input sheet, as \<^verbatim>\<open>xlrd\<close> delivers it: a text or a number.\<close>

datatype cell = Text string | Number real

text \<open>The level step in metres (lines 953 to 961): a step given as text or equal to
  zero is replaced by 1, and centimetres become metres.\<close>

definition level_step :: "cell \<Rightarrow> real" where
  "level_step dH =
     (let d = (case dH of Text t \<Rightarrow> 1 | Number r \<Rightarrow> if r = 0 then 1 else r)
      in d / 100)"


text \<open>A row of the table. The columns of \<^verbatim>\<open>col\<close> are, in order: the sector name
  (\<open>uchastok\<close>), the water level (\<open>uv\<close>), \<^verbatim>\<open>F\<close>, \<^verbatim>\<open>B\<close>, the average depth
  (\<open>row_Hsr\<close>), the maximum depth (\<open>row_Hmax\<close>), \<^verbatim>\<open>V\<close>, \<^verbatim>\<open>Q\<close> and \<^verbatim>\<open>Shezi\<close>; the
  Cyrillic headers are transliterated.\<close>

record rating_row =
  uchastok :: string
  uv :: real
  row_F :: real
  row_B :: real
  row_Hsr :: real
  row_Hmax :: real
  row_V :: real
  row_Q :: real
  row_Shezi :: real

text \<open>The name of the aggregate row, the Cyrillic word for "sum" (transliterated
  \<open>Summa\<close>), as its UTF-8 bytes.\<close>

definition Summa :: string where
  "Summa = [CHR 0xD0, CHR 0xA1, CHR 0xD1, CHR 0x83, CHR 0xD0, CHR 0xBC,
            CHR 0xD0, CHR 0xBC, CHR 0xD0, CHR 0xB0]"


definition r_sum :: "real \<Rightarrow> rating_row" where
  "r_sum lv =
     \<lparr>uchastok = Summa, uv = lv, row_F = 0, row_B = 0, row_Hsr = 0, row_Hmax = 0,
      row_V = 0, row_Q = 0, row_Shezi = 0\<rparr>"













text \<open>The index of a row after \<^verbatim>\<open>set_index\<close>: the level, then the sector name.\<close>

definition row_index :: "rating_row \<Rightarrow> real \<times> string" where
  "row_index r = (uv r, uchastok r)"

subsection \<open>The aggregate rows (lines 1127 to 1146)\<close>

text \<open>
  \<^verbatim>\<open>df.groupby(level=0)[col].transform(f)\<close> gives every row the value of \<open>f\<close> over the
  rows of its level; \<^verbatim>\<open>df.loc[(water_levels, Summa), col] = ...\<close> stores it in the rows
  named \<open>Summa\<close>. Each assignment reads the table that the assignments before it
  have changed. A quotient \<^verbatim>\<open>0 / 0\<close> is NaN and becomes 0 by \<^verbatim>\<open>fillna(0)\<close>; a nonzero
  numerator over zero is infinite in pandas and has no meaning here.
\<close>

definition level_group :: "rating_row list \<Rightarrow> real \<Rightarrow> rating_row list" where
  "level_group t lv = filter (\<lambda>r. uv r = lv) t"

definition transform_sum :: "(rating_row \<Rightarrow> real) \<Rightarrow> rating_row list \<Rightarrow> real \<Rightarrow> real" where
  "transform_sum col t lv = sum_list (map col (level_group t lv))"

definition transform_max :: "(rating_row \<Rightarrow> real) \<Rightarrow> rating_row list \<Rightarrow> real \<Rightarrow> real" where
  "transform_max col t lv = py_max (map col (level_group t lv))"

definition transform_count :: "rating_row list \<Rightarrow> real \<Rightarrow> real" where
  "transform_count t lv = real (length (level_group t lv))"

definition nan_div :: "real \<Rightarrow> real \<Rightarrow> real" where
  "nan_div a b = (if b = 0 then 0 else a / b)"

definition assign_summa ::
  "(rating_row \<Rightarrow> real \<Rightarrow> rating_row) \<Rightarrow> (real \<Rightarrow> real) \<Rightarrow> rating_row list \<Rightarrow> rating_row list" where
  "assign_summa upd f t = map (\<lambda>r. if uchastok r = Summa then upd r (f (uv r)) else r) t"

definition fill_summary :: "rating_row list \<Rightarrow> rating_row list" where
  "fill_summary t =
     (let t1 = assign_summa (\<lambda>r v. r\<lparr>row_F := v\<rparr>) (transform_sum row_F t) t;
          t2 = assign_summa (\<lambda>r v. r\<lparr>row_B := v\<rparr>) (transform_sum row_B t1) t1;
          t3 = assign_summa (\<lambda>r v. r\<lparr>row_Hsr := v\<rparr>)
                 (\<lambda>lv. nan_div (transform_sum row_F t2 lv) (transform_sum row_B t2 lv)) t2;
          t4 = assign_summa (\<lambda>r v. r\<lparr>row_Hmax := v\<rparr>) (transform_max row_Hmax t3) t3;
          t5 = assign_summa (\<lambda>r v. r\<lparr>row_Q := v\<rparr>) (transform_sum row_Q t4) t4;
          t6 = assign_summa (\<lambda>r v. r\<lparr>row_V := v\<rparr>)
                 (\<lambda>lv. nan_div (transform_sum row_Q t5 lv) (transform_sum row_F t5 lv)) t5
      in assign_summa (\<lambda>r v. r\<lparr>row_Shezi := v\<rparr>)
           (\<lambda>lv. nan_div (transform_sum row_Shezi t6 lv) (transform_count t6 lv - 1)) t6)"

text \<open>The sector rows of a level: the rows of the level other than the aggregate row.\<close>

definition sector_rows :: "rating_row list \<Rightarrow> real \<Rightarrow> rating_row list" where
  "sector_rows t lv = filter (\<lambda>r. uv r = lv \<and> uchastok r \<noteq> Summa) t"

text \<open>The aggregate rows of a level.\<close>

definition summa_rows :: "rating_row list \<Rightarrow> real \<Rightarrow> rating_row list" where
  "summa_rows t lv = filter (\<lambda>r. uv r = lv \<and> uchastok r = Summa) t"

subsection \<open>The wetted perimeter in the words of the specification\<close>

text \<open>The specification describes the wetted perimeter as the cumulative horizontal span
  of the wetted polyline: the sum of the successive differences of its abscissae.\<close>

fun spec_wet_perimeter :: "real list \<Rightarrow> real" where
  "spec_wet_perimeter (a # b # cs) = (b - a) + spec_wet_perimeter (b # cs)"
| "spec_wet_perimeter cs = 0"

subsection \<open>A profile of two sectors\<close>



subsection \<open>A raw table of two levels\<close>

text \<open>The table as the loop leaves it before the aggregate rows are filled: the initial
  all-zero row at the lowest elevation, then the rows of two sectors at level 9 and the empty
  aggregate row of that level.\<close>

definition sample_table :: "rating_row list" where
  "sample_table =
     [r_sum 8,
      \<lparr>uchastok = ''channel'', uv = 9, row_F = 2, row_B = 4, row_Hsr = 0.5, row_Hmax = 1,
       row_V = 1, row_Q = 2, row_Shezi = 30\<rparr>,
      \<lparr>uchastok = ''floodplain'', uv = 9, row_F = 1, row_B = 4, row_Hsr = 0.25,
       row_Hmax = 0.5, row_V = 1, row_Q = 1, row_Shezi = 20\<rparr>,
      r_sum 9]"

section \<open>Properties\<close>

subsection \<open>Evaluation and basic facts\<close>

lemmas boundary_eval = bindE_def item_def left_body_def right_body_def right_end_def
  found_x_def found_y_def found_p_def boundary_def interp1d_def Let_def

lemmas parameters_eval = bindE_def item_def slice_def slice_bound_def insert_at_def
  floor_ratio_def calculate_parameters_def poly_area_def power2_eq_square

lemma WaterSection_single:
  assumes "boundary x y wl sp = Inr [wb]"
  shows "WaterSection overflow x y wl sp = caught (calculate_parameters overflow x y wl wb)"
  using assms by (simp add: WaterSection_def bindE_def item_def)

lemma py_min_Min: "ys \<noteq> [] \<Longrightarrow> py_min ys = Min (set ys)"
  by (induction ys rule: py_min.induct) simp_all

subsection \<open>A level below the bottom\<close>

text \<open>
  Claim C5. For every polyline (with at least one point) and every water level strictly
  below the lowest bottom elevation, the construction of the water section ends in the
  invalid-level exit, whatever the start point and the overflow switch; it never returns a
  water section.
\<close>

theorem below_minimum_is_invalid_level:
  assumes "y \<noteq> []" and "wl < Min (set y)"
  shows "WaterSection overflow x y wl start_point = Inl ExitInvalidLevel"
  using assms by (simp add: WaterSection_def boundary_def bindE_def py_min_Min Let_def)

theorem below_minimum_is_invalid_level_witness:
  "[10, 8, 8, 10] \<noteq> ([] :: real list) \<and> (7 :: real) < Min (set [10, 8, 8, 10])
   \<and> WaterSection False [0, 5, 10, 15] [10, 8, 8, 10] 7 None = Inl ExitInvalidLevel"
  using below_minimum_is_invalid_level [of "[10, 8, 8, 10]" 7 False "[0, 5, 10, 15]" None]
  by simp

subsection \<open>The level step\<close>

text \<open>
  Claim C7 says that a non-positive or non-numeric step is replaced by 1 cm. The code
  replaces a text and a zero only: a negative step is divided by 100 like any other
  number. At \<open>dH = -5\<close> the step is \<open>-0.05\<close> m, not \<open>0.01\<close> m.
\<close>

theorem negative_step_counterexample:
  "level_step (Number (- 5)) = - 0.05 \<and> level_step (Number (- 5)) \<noteq> 0.01"
  by (simp add: level_step_def)

text \<open>
  Claim C7, amended. A step given as text or equal to zero becomes 0.01 m; every other
  number \<open>r\<close>, negative ones included, becomes \<open>r / 100\<close> m.
\<close>

theorem level_step_cases:
  "level_step (Text t) = 0.01 \<and> level_step (Number 0) = 0.01
   \<and> (r \<noteq> 0 \<longrightarrow> level_step (Number r) = r / 100)"
  by (simp add: level_step_def)

theorem level_step_cases_witness:
  "(5 :: real) \<noteq> 0 \<and> level_step (Number 5) = 0.05 \<and> level_step (Text ''abc'') = 0.01"
  using level_step_cases [of "''abc''" 5] by simp

subsection \<open>The trapezoidal channel\<close>

lemma trapezoid_boundary:
  "boundary [0, 5, 10, 15] [10, 8, 8, 10] 9 None =
     Inr [\<lparr>water_boundary_x = [2.5, 12.5], water_boundary_y = [9, 9],
           water_boundary_points = [0, 2], water_boundary_count = 0\<rparr>]"
  by (simp add: boundary_eval)

lemma trapezoid_parameters:
  "calculate_parameters overflow [0, 5, 10, 15] [10, 8, 8, 10] 9
     \<lparr>water_boundary_x = [2.5, 12.5], water_boundary_y = [9, 9],
      water_boundary_points = [0, 2], water_boundary_count = 0\<rparr> =
   Inr \<lparr>water_section_x = [2.5, 5, 10, 12.5], water_section_y = [9, 8, 8, 9],
        width = 10, area = 7.5, average_depth = 0.75, max_depth = 1,
        wet_perimeter = 0, r_hydraulic = 7.5 / sqrt 37.5, w_perimeter = sqrt 37.5\<rparr>"
  by (simp add: parameters_eval) (simp add: Let_def)

lemma trapezoid_water_section:
  "WaterSection overflow [0, 5, 10, 15] [10, 8, 8, 10] 9 None =
   Inr \<lparr>water_section_x = [2.5, 5, 10, 12.5], water_section_y = [9, 8, 8, 9],
        width = 10, area = 7.5, average_depth = 0.75, max_depth = 1,
        wet_perimeter = 0, r_hydraulic = 7.5 / sqrt 37.5, w_perimeter = sqrt 37.5\<rparr>"
  by (simp only: WaterSection_single [OF trapezoid_boundary] trapezoid_parameters)
     (simp add: caught_def)


text \<open>
  Claim C4 gives, for the bottom \<open>(0,10), (5,8), (10,8), (15,10)\<close> at level 9, the area
  17.5 and the average depth 1.75. The shoelace formula over
  \<open>(2.5,9), (5,8), (10,8), (12.5,9)\<close> gives 7.5 (a trapezoid with parallel sides 10 and
  5 and height 1), and the average depth is \<open>7.5 / 10\<close>.
\<close>

theorem trapezoid_area_counterexample:
  "map_sum id area (WaterSection False [0, 5, 10, 15] [10, 8, 8, 10] 9 None) = Inr 7.5
   \<and> map_sum id average_depth (WaterSection False [0, 5, 10, 15] [10, 8, 8, 10] 9 None)
       = Inr 0.75"
  by (simp add: trapezoid_water_section)

text \<open>
  Claim C4, amended. For that bottom and level the boundary search returns the abscissae
  2.5 and 12.5, and the water section has width 10, area 7.5 and average depth 0.75, with
  or without overflow mode.
\<close>

theorem trapezoid_section:
  "map_sum id (map water_boundary_x) (boundary [0, 5, 10, 15] [10, 8, 8, 10] 9 None)
     = Inr [[2.5, 12.5]]
   \<and> WaterSection overflow [0, 5, 10, 15] [10, 8, 8, 10] 9 None =
       Inr \<lparr>water_section_x = [2.5, 5, 10, 12.5], water_section_y = [9, 8, 8, 9],
            width = 10, area = 7.5, average_depth = 0.75, max_depth = 1,
            wet_perimeter = 0, r_hydraulic = 7.5 / sqrt 37.5, w_perimeter = sqrt 37.5\<rparr>"
  by (simp add: trapezoid_water_section trapezoid_boundary)

subsection \<open>What a constructed water section holds\<close>

lemma bindE_Inr:
  "bindE m f = Inr b \<longleftrightarrow> (\<exists>a. m = Inr a \<and> f a = Inr b)"
  by (cases m) (simp_all add: bindE_def)

lemma caught_Inr: "caught m = Inr b \<longleftrightarrow> m = Inr b"
  by (cases m) (simp_all add: caught_def split: error.splits)

lemma boundary_single:
  assumes "boundary x y wl sp = Inr bs"
  shows "\<exists>wb. bs = [wb]"
  using assms
  by (auto simp: boundary_def Let_def bindE_Inr split: if_splits)

lemma WaterSection_Inr:
  assumes "WaterSection overflow x y wl sp = Inr ws"
  shows "\<exists>wb. boundary x y wl sp = Inr [wb] \<and> calculate_parameters overflow x y wl wb = Inr ws"
proof -
  from assms obtain bs where bs: "boundary x y wl sp = Inr bs"
    by (auto simp: WaterSection_def bindE_Inr)
  then obtain wb where wb: "bs = [wb]" using boundary_single by blast
  with assms bs have "caught (calculate_parameters overflow x y wl wb) = Inr ws"
    by (simp add: WaterSection_single)
  then show ?thesis using bs wb by (simp add: caught_Inr)
qed

lemma calculate_parameters_Inr:
  assumes "calculate_parameters overflow x y wl wb = Inr ws"
  shows "wet_perimeter ws = 0"
    and "w_perimeter ws = sqrt (sum_sqr (water_section_x ws))"
    and "r_hydraulic ws = floor_ratio (area ws) (w_perimeter ws)"
    and "average_depth ws = floor_ratio (area ws) (width ws)"
    and "area ws = poly_area (water_section_x ws) (water_section_y ws)"
  using assms
  by (auto simp: calculate_parameters_def bindE_Inr Let_def)

lemma floor_ratio_pos:
  assumes "0 < a" "0 < b"
  shows "floor_ratio a b = a / b"
  using assms by (simp add: floor_ratio_def)

subsection \<open>The wetted perimeter\<close>

text \<open>
  Claim C2, evaluated on the trapezoidal channel \<open>(0, 10), (5, 8), (10, 8), (15, 10)\<close> at
  level 9. The claim says that the wetted perimeter used by the computation is the sum of
  the successive horizontal differences of the wetted polyline. The wetted abscissae are
  2.5, 5, 10, 12.5 and the sum of their differences is 10, which is also the width of the
  water surface. The code adds the squares of the differences and takes one square root of
  the total: its perimeter is \<open>sqrt 37.5\<close>, which is not 10 and is less than the width of
  the surface, and the hydraulic radius is the area divided by that value.
\<close>

theorem perimeter_below_surface_width:
  "map_sum id water_section_x (WaterSection False [0, 5, 10, 15] [10, 8, 8, 10] 9 None)
     = Inr [2.5, 5, 10, 12.5]
   \<and> map_sum id w_perimeter (WaterSection False [0, 5, 10, 15] [10, 8, 8, 10] 9 None)
       = Inr (sqrt 37.5)
   \<and> map_sum id width (WaterSection False [0, 5, 10, 15] [10, 8, 8, 10] 9 None) = Inr 10
   \<and> map_sum id r_hydraulic (WaterSection False [0, 5, 10, 15] [10, 8, 8, 10] 9 None)
       = Inr (7.5 / sqrt 37.5)
   \<and> spec_wet_perimeter [2.5, 5, 10, 12.5] = 10
   \<and> sqrt 37.5 < (10 :: real)"
proof -
  have "sqrt 37.5 < sqrt ((10 :: real)\<^sup>2)"
    by (simp only: real_sqrt_less_iff) simp
  then have "sqrt 37.5 < (10 :: real)" by simp
  then show ?thesis by (simp add: trapezoid_water_section)
qed

subsection \<open>One boundary group, and the declared perimeter field\<close>

text \<open>
  Claim C10. Whenever the construction of a water section succeeds, the boundary search
  has returned a list of exactly one group; the declared field \<open>wet_perimeter\<close> still
  holds its default 0; the computed perimeter is in the separate attribute
  \<open>w_perimeter\<close>, and the hydraulic radius is derived from that attribute.
\<close>

theorem single_boundary_group:
  assumes "WaterSection overflow x y wl start_point = Inr ws"
  shows "(\<exists>wb. boundary x y wl start_point = Inr [wb])
         \<and> wet_perimeter ws = 0
         \<and> w_perimeter ws = sqrt (sum_sqr (water_section_x ws))
         \<and> r_hydraulic ws = floor_ratio (area ws) (w_perimeter ws)"
proof -
  from assms obtain wb where wb: "boundary x y wl start_point = Inr [wb]"
    and cp: "calculate_parameters overflow x y wl wb = Inr ws"
    using WaterSection_Inr by blast
  show ?thesis using wb calculate_parameters_Inr [OF cp] by simp
qed

theorem single_boundary_group_witness:
  "WaterSection True [0, 5, 10, 15] [10, 8, 8, 10] 9 None =
     Inr \<lparr>water_section_x = [2.5, 5, 10, 12.5], water_section_y = [9, 8, 8, 9],
          width = 10, area = 7.5, average_depth = 0.75, max_depth = 1,
          wet_perimeter = 0, r_hydraulic = 7.5 / sqrt 37.5, w_perimeter = sqrt 37.5\<rparr>
   \<and> length (projr (boundary [0, 5, 10, 15] [10, 8, 8, 10] 9 None)) = 1"
  using single_boundary_group [OF trapezoid_water_section [of True]]
  by (simp add: trapezoid_water_section trapezoid_boundary)

subsection \<open>The Pavlovsky coefficient under the water regime\<close>

lemma np_pow_pos:
  assumes "0 < b"
  shows "np_pow b (Fin e) = Fin (b powr e)"
  using assms by simp

lemma pavlovskij_exponent:
  assumes "0 < n" and "0 \<le> h"
  shows "shezi_pavlovskij n h =
           Inr (fl_mul (Fin (1 / n))
                  (np_pow h (Fin (2.5 * sqrt n - 0.13 - 0.75 * sqrt h * (sqrt n - 0.10)))))"
  using assms by (simp add: shezi_pavlovskij_def fl_sub_def Let_def)

text \<open>
  Claim C8. For a roughness \<open>n > 0\<close>, any slope \<open>i\<close> and an average depth
  \<open>0 \<le> h \<le> 3\<close>, the calculation under \<^verbatim>\<open>CALC_TYPE = 1\<close> returns the coefficient
  \<open>C = (1 / n) * h ** y\<close> with \<open>y = 2.5 * sqrt n - 0.13 - 0.75 * sqrt h * (sqrt n - 0.10)\<close>, the
  velocity \<open>C * np.sqrt (h * (i / 1000))\<close> and the discharge \<open>a * v\<close>, the operations
  being those of the floats: at \<open>h = 0\<close> under a negative \<open>y\<close> the power is infinite, and
  under a negative slope the root is NaN. For \<open>0 < h\<close> and \<open>0 \<le> i\<close> the three values are
  the real numbers \<open>(1 / n) * h powr y\<close>, \<open>C * sqrt (h * (i / 1000))\<close> and \<open>a * v\<close>.
  Whatever the regime, a calculation that returns has \<open>q = a * v\<close>.
\<close>

theorem pavlovskij_water_regime:
  assumes "0 < n" and "0 \<le> h" and "h \<le> 3"
  shows "(\<exists>c. Calculation 1 n i h a = Inr c
            \<and> shezi c = fl_mul (Fin (1 / n))
                  (np_pow h (Fin (2.5 * sqrt n - 0.13 - 0.75 * sqrt h * (sqrt n - 0.10))))
            \<and> calc_v c = fl_mul (shezi c) (np_sqrt (Fin (h * (i / 1000))))
            \<and> calc_q c = fl_mul (Fin a) (calc_v c)
            \<and> (0 < h \<and> 0 \<le> i \<longrightarrow>
                 (\<exists>C v. C = (1 / n) * h powr (2.5 * sqrt n - 0.13 - 0.75 * sqrt h * (sqrt n - 0.10))
                    \<and> v = C * sqrt (h * (i / 1000))
                    \<and> shezi c = Fin C \<and> calc_v c = Fin v \<and> calc_q c = Fin (a * v))))
         \<and> (\<forall>calc_type c. Calculation calc_type n i h a = Inr c
               \<longrightarrow> calc_q c = fl_mul (Fin a) (calc_v c))"
proof
  have r: "0 < h \<Longrightarrow> 0 \<le> i \<Longrightarrow> \<not> h * i < 0"
    by (simp add: not_less)
  show "\<exists>c. Calculation 1 n i h a = Inr c
            \<and> shezi c = fl_mul (Fin (1 / n))
                  (np_pow h (Fin (2.5 * sqrt n - 0.13 - 0.75 * sqrt h * (sqrt n - 0.10))))
            \<and> calc_v c = fl_mul (shezi c) (np_sqrt (Fin (h * (i / 1000))))
            \<and> calc_q c = fl_mul (Fin a) (calc_v c)
            \<and> (0 < h \<and> 0 \<le> i \<longrightarrow>
                 (\<exists>C v. C = (1 / n) * h powr (2.5 * sqrt n - 0.13 - 0.75 * sqrt h * (sqrt n - 0.10))
                    \<and> v = C * sqrt (h * (i / 1000))
                    \<and> shezi c = Fin C \<and> calc_v c = Fin v \<and> calc_q c = Fin (a * v)))"
    using assms r
    by (simp add: Calculation_def pavlovskij_exponent bindE_def np_pow_pos del: np_pow.simps)
  show "\<forall>calc_type c. Calculation calc_type n i h a = Inr c
          \<longrightarrow> calc_q c = fl_mul (Fin a) (calc_v c)"
    by (auto simp: Calculation_def bindE_Inr split: if_splits)
qed

text \<open>
  A channel with \<open>n = 0.03\<close>, a slope of 2 per mille, an average depth 1.75 and an area
  17.5: the three values are finite.
\<close>

theorem pavlovskij_water_regime_witness:
  "(0 :: real) < 0.03 \<and> (0 :: real) \<le> 1.75 \<and> (1.75 :: real) \<le> 3
   \<and> (\<exists>c C v. Calculation 1 0.03 2 1.75 17.5 = Inr c
          \<and> C = (1 / 0.03) * 1.75 powr (2.5 * sqrt 0.03 - 0.13 - 0.75 * sqrt 1.75 * (sqrt 0.03 - 0.10))
          \<and> v = C * sqrt (1.75 * (2 / 1000))
          \<and> shezi c = Fin C \<and> calc_v c = Fin v \<and> calc_q c = Fin (17.5 * v))"
proof -
  have h: "(0 :: real) < 0.03" "(0 :: real) \<le> 1.75" "(1.75 :: real) \<le> 3" by simp_all
  have g: "(0 :: real) < 1.75 \<and> (0 :: real) \<le> 2" by simp
  from pavlovskij_water_regime [OF h, of 2 "17.5"] show ?thesis using h g by blast
qed

text \<open>
  Where the values leave the reals: a dry section (\<open>h = 0\<close>) with a roughness 0.001 has an
  infinite coefficient and a NaN velocity and discharge, and a negative slope gives a NaN
  velocity and discharge.
\<close>

lemma dry_section_is_not_finite:
  "Calculation 1 0.001 2 0 1 = Inr \<lparr>shezi = PosInf, calc_v = NaN, calc_q = NaN\<rparr>"
proof -
  have "sqrt (0.001 :: real) < sqrt ((0.05 :: real)\<^sup>2)"
    by (simp only: real_sqrt_less_iff) (simp add: power2_eq_square)
  then have "sqrt (0.001 :: real) < 0.05" by simp
  then have "\<not> (0 :: real) < 2.5 * sqrt 0.001 - 0.13" "2.5 * sqrt 0.001 - 0.13 \<noteq> (0 :: real)"
    by simp_all
  then show ?thesis
    by (simp add: Calculation_def pavlovskij_exponent bindE_def signed_inf_def)
qed

lemma negative_slope_is_nan:
  "Calculation 1 0.03 (- 2) 1 1 = Inr \<lparr>shezi = Fin (1 / 0.03), calc_v = NaN, calc_q = NaN\<rparr>"
  by (simp add: Calculation_def pavlovskij_exponent bindE_def)

subsection \<open>Two wetted bodies on one polyline\<close>

lemma island_boundary:
  "boundary [0, 5, 10, 15, 20] [10, 8, 10, 8, 10] 9 None =
     Inr [\<lparr>water_boundary_x = [2.5, 7.5], water_boundary_y = [9, 9],
           water_boundary_points = [0, 1], water_boundary_count = 0\<rparr>]"
  by (simp add: boundary_eval)

lemma island_parameters:
  "calculate_parameters overflow [0, 5, 10, 15, 20] [10, 8, 10, 8, 10] 9
     \<lparr>water_boundary_x = [2.5, 7.5], water_boundary_y = [9, 9],
      water_boundary_points = [0, 1], water_boundary_count = 0\<rparr> =
   Inr \<lparr>water_section_x = [2.5, 5, 7.5], water_section_y = [9, 8, 9],
        width = 5, area = 2.5, average_depth = 0.5, max_depth = 1,
        wet_perimeter = 0, r_hydraulic = 2.5 / sqrt 12.5, w_perimeter = sqrt 12.5\<rparr>"
  by (simp add: parameters_eval) (simp add: Let_def)

lemma island_second_boundary:
  "boundary [0, 5, 10, 15, 20] [10, 8, 10, 8, 10] 9 (Some 3) =
     Inr [\<lparr>water_boundary_x = [12.5, 17.5], water_boundary_y = [9, 9],
           water_boundary_points = [2, 3], water_boundary_count = 0\<rparr>]"
  by (simp add: boundary_eval)

lemma island_second_parameters:
  "calculate_parameters overflow [0, 5, 10, 15, 20] [10, 8, 10, 8, 10] 9
     \<lparr>water_boundary_x = [12.5, 17.5], water_boundary_y = [9, 9],
      water_boundary_points = [2, 3], water_boundary_count = 0\<rparr> =
   Inr \<lparr>water_section_x = [12.5, 15, 17.5], water_section_y = [9, 8, 9],
        width = 5, area = 2.5, average_depth = 0.5, max_depth = 1,
        wet_perimeter = 0, r_hydraulic = 2.5 / sqrt 12.5, w_perimeter = sqrt 12.5\<rparr>"
  by (simp add: parameters_eval) (simp add: Let_def)

lemma island_water_section:
  "WaterSection overflow [0, 5, 10, 15, 20] [10, 8, 10, 8, 10] 9 None =
     Inr \<lparr>water_section_x = [2.5, 5, 7.5], water_section_y = [9, 8, 9],
          width = 5, area = 2.5, average_depth = 0.5, max_depth = 1,
          wet_perimeter = 0, r_hydraulic = 2.5 / sqrt 12.5, w_perimeter = sqrt 12.5\<rparr>"
  by (simp only: WaterSection_single [OF island_boundary] island_parameters)
     (simp add: caught_def)

lemma island_second_water_section:
  "WaterSection overflow [0, 5, 10, 15, 20] [10, 8, 10, 8, 10] 9 (Some 3) =
     Inr \<lparr>water_section_x = [12.5, 15, 17.5], water_section_y = [9, 8, 9],
          width = 5, area = 2.5, average_depth = 0.5, max_depth = 1,
          wet_perimeter = 0, r_hydraulic = 2.5 / sqrt 12.5, w_perimeter = sqrt 12.5\<rparr>"
  by (simp only: WaterSection_single [OF island_second_boundary] island_second_parameters)
     (simp add: caught_def)

text \<open>
  Claim C9, evaluated. The bottom \<open>(0,10), (5,8), (10,10), (15,8), (20,10)\<close> at level 9
  has two wetted bodies, one on each side of the island at \<open>x = 10\<close>, each of width 5
  and area 2.5. The boundary search runs outward from the first lowest point and returns the
  one group \<open>[2.5, 7.5]\<close>; the water section is the left body alone, with width 5 and
  area 2.5. The right body is found only when the search is started inside it.
\<close>

theorem island_single_body:
  "map_sum id (map water_boundary_x) (boundary [0, 5, 10, 15, 20] [10, 8, 10, 8, 10] 9 None)
     = Inr [[2.5, 7.5]]
   \<and> WaterSection overflow [0, 5, 10, 15, 20] [10, 8, 10, 8, 10] 9 None =
       Inr \<lparr>water_section_x = [2.5, 5, 7.5], water_section_y = [9, 8, 9],
            width = 5, area = 2.5, average_depth = 0.5, max_depth = 1,
            wet_perimeter = 0, r_hydraulic = 2.5 / sqrt 12.5, w_perimeter = sqrt 12.5\<rparr>
   \<and> WaterSection overflow [0, 5, 10, 15, 20] [10, 8, 10, 8, 10] 9 (Some 3) =
       Inr \<lparr>water_section_x = [12.5, 15, 17.5], water_section_y = [9, 8, 9],
            width = 5, area = 2.5, average_depth = 0.5, max_depth = 1,
            wet_perimeter = 0, r_hydraulic = 2.5 / sqrt 12.5, w_perimeter = sqrt 12.5\<rparr>"
  by (simp add: island_water_section island_second_water_section island_boundary)

subsection \<open>The level of the lowest point\<close>





lemma item_nat: "j < length xs \<Longrightarrow> item xs (int j) = Inr (xs ! j)"
  by (simp add: item_def)

lemma item_0: "xs \<noteq> [] \<Longrightarrow> item xs 0 = Inr (xs ! 0)"
  by (simp add: item_def)

lemma item_pred: "0 < j \<Longrightarrow> j \<le> length xs \<Longrightarrow> item xs (int j - 1) = Inr (xs ! (j - 1))"
  using item_nat [of "j - 1" xs] by (simp add: of_nat_diff)


lemma item_last: "xs \<noteq> [] \<Longrightarrow> item xs (int (length xs) - 1) = Inr (xs ! (length xs - 1))"
  using item_pred [of "length xs" xs] by simp

















subsection \<open>Overflow into a neighbour sector\<close>






















subsection \<open>The aggregate row of a level\<close>

lemma level_group_split:
  fixes g :: "rating_row \<Rightarrow> real"
  shows "sum_list (map g (level_group t lv))
           = sum_list (map g (sector_rows t lv)) + sum_list (map g (summa_rows t lv))"
  by (induction t) (auto simp: level_group_def sector_rows_def summa_rows_def)

lemma level_group_length:
  "length (level_group t lv) = length (sector_rows t lv) + length (summa_rows t lv)"
  by (induction t) (auto simp: level_group_def sector_rows_def summa_rows_def)

lemma sector_rows_assign:
  assumes "\<And>r v. uv (upd r v) = uv r" and "\<And>r v. uchastok (upd r v) = uchastok r"
  shows "sector_rows (assign_summa upd f t) lv = sector_rows t lv"
  by (induction t) (auto simp: sector_rows_def assign_summa_def assms)

lemma summa_rows_assign:
  assumes "\<And>r v. uv (upd r v) = uv r" and "\<And>r v. uchastok (upd r v) = uchastok r"
  shows "summa_rows (assign_summa upd f t) lv = map (\<lambda>r. upd r (f lv)) (summa_rows t lv)"
  by (induction t) (auto simp: summa_rows_def assign_summa_def assms)

lemma transform_sum_split:
  "transform_sum col t lv
     = sum_list (map col (sector_rows t lv)) + sum_list (map col (summa_rows t lv))"
  by (simp add: transform_sum_def level_group_split)

lemma transform_count_split:
  "transform_count t lv = real (length (sector_rows t lv)) + real (length (summa_rows t lv))"
  by (simp add: transform_count_def level_group_length)

lemma sum_list_constant:
  fixes c :: real
  shows "sum_list (map (\<lambda>r. c) rs) = real (length rs) * c"
  by (induction rs) (simp_all add: algebra_simps)

lemma transform_sum_assign_other:
  assumes "\<And>r v. uv (upd r v) = uv r" and "\<And>r v. uchastok (upd r v) = uchastok r"
    and "\<And>r v. col (upd r v) = col r"
  shows "transform_sum col (assign_summa upd f t) lv = transform_sum col t lv"
  by (simp add: transform_sum_split sector_rows_assign [OF assms(1,2)]
        summa_rows_assign [OF assms(1,2)] o_def assms(3))

lemma transform_sum_assign_same:
  assumes "\<And>r v. uv (upd r v) = uv r" and "\<And>r v. uchastok (upd r v) = uchastok r"
    and "\<And>r v. col (upd r v) = v"
  shows "transform_sum col (assign_summa upd f t) lv
           = sum_list (map col (sector_rows t lv)) + real (length (summa_rows t lv)) * f lv"
  by (simp add: transform_sum_split sector_rows_assign [OF assms(1,2)]
        summa_rows_assign [OF assms(1,2)] o_def assms(3) sum_list_constant)

lemma transform_count_assign:
  assumes "\<And>r v. uv (upd r v) = uv r" and "\<And>r v. uchastok (upd r v) = uchastok r"
  shows "transform_count (assign_summa upd f t) lv = transform_count t lv"
  by (simp add: transform_count_split sector_rows_assign [OF assms(1,2)]
        summa_rows_assign [OF assms(1,2)])

lemma single_summa_row:
  assumes "distinct (map row_index t)" and "r \<in> set t" and "uchastok r = Summa"
  shows "summa_rows t (uv r) = [r]"
  using assms
proof (induction t)
  case Nil
  then show ?case by simp
next
  case (Cons s t)
  show ?case
  proof (cases "r = s")
    case True
    have "filter (\<lambda>q. uv q = uv r \<and> uchastok q = Summa) t = []"
    proof (rule ccontr)
      assume "filter (\<lambda>q. uv q = uv r \<and> uchastok q = Summa) t \<noteq> []"
      then obtain q where q: "q \<in> set t" "uv q = uv r" "uchastok q = Summa"
        by (auto simp: filter_empty_conv)
      then have "row_index q = row_index s"
        using True Cons.prems(3) by (simp add: row_index_def)
      moreover have "row_index q \<in> row_index ` set t" using q(1) by (rule imageI)
      ultimately have "row_index s \<in> set (map row_index t)" by simp
      then show False using Cons.prems(1) by simp
    qed
    then show ?thesis using True Cons.prems(3) by (simp add: summa_rows_def)
  next
    case False
    then have rt: "r \<in> set t" using Cons.prems(2) by simp
    have "row_index r \<in> row_index ` set t" using rt by (rule imageI)
    then have "row_index s \<noteq> row_index r" using Cons.prems(1) by auto
    then have "\<not> (uv s = uv r \<and> uchastok s = Summa)"
      using Cons.prems(3) by (auto simp: row_index_def)
    moreover have "summa_rows t (uv r) = [r]"
      using Cons.IH rt Cons.prems(1,3) by simp
    ultimately show ?thesis by (auto simp: summa_rows_def)
  qed
qed

lemma assign_summa_member:
  assumes "a \<in> set (assign_summa upd f t)" and "uchastok a = Summa"
    and "\<And>r v. uchastok (upd r v) = uchastok r"
  shows "\<exists>r \<in> set t. uchastok r = Summa \<and> a = upd r (f (uv r))"
  using assms(1,2) by (auto simp: assign_summa_def assms(3) split: if_splits)

lemma sum_list_zero:
  fixes g :: "rating_row \<Rightarrow> real"
  assumes "\<forall>r \<in> set rs. g r = 0"
  shows "sum_list (map g rs) = 0"
  using assms by (induction rs) simp_all

lemma nan_div_double: "nan_div (2 * a) (2 * b) = nan_div a b"
  by (simp add: nan_div_def)

lemma assign_summa_index:
  assumes "\<And>r v. uv (upd r v) = uv r" and "\<And>r v. uchastok (upd r v) = uchastok r"
  shows "map row_index (assign_summa upd f t) = map row_index t"
  by (induction t) (simp_all add: assign_summa_def row_index_def assms)

lemma fill_summary_index: "map row_index (fill_summary t) = map row_index t"
  unfolding fill_summary_def Let_def by (simp add: assign_summa_index)

text \<open>
  Claim C3. Take a raw table whose index pairs (level, name) are distinct, as the
  specification's table indexed by (level, sector-or-aggregate) has them, and whose rows
  named \<open>Summa\<close> are all-zero, as the loop appends them (\<open>r_sum\<close>). In the filled
  table every aggregate row has \<open>F\<close>, \<open>B\<close> and \<open>Q\<close> equal to the sums over the
  sector rows of its level, the average depth \<open>sum F / sum B\<close>, the velocity
  \<open>sum Q / sum F\<close>, and \<open>Shezi\<close> equal to the sum of the sector rows' values divided
  by their number, the aggregate row itself left out; the sector rows are unchanged. The
  equalities are exact over the reals, so they hold within any tolerance; \<open>nan_div\<close>
  is the quotient, with 0 where pandas has NaN replaced by 0.
\<close>

theorem aggregate_row_invariant:
  assumes "distinct (map row_index t)"
    and "\<forall>r \<in> set t. uchastok r = Summa
           \<longrightarrow> row_F r = 0 \<and> row_B r = 0 \<and> row_Q r = 0 \<and> row_Shezi r = 0"
    and "a \<in> set (fill_summary t)" and "uchastok a = Summa"
  shows "row_F a = sum_list (map row_F (sector_rows t (uv a)))
       \<and> row_B a = sum_list (map row_B (sector_rows t (uv a)))
       \<and> row_Q a = sum_list (map row_Q (sector_rows t (uv a)))
       \<and> row_Hsr a = nan_div (sum_list (map row_F (sector_rows t (uv a))))
                        (sum_list (map row_B (sector_rows t (uv a))))
       \<and> row_V a = nan_div (sum_list (map row_Q (sector_rows t (uv a))))
                      (sum_list (map row_F (sector_rows t (uv a))))
       \<and> row_Shezi a = nan_div (sum_list (map row_Shezi (sector_rows t (uv a))))
                          (real (length (sector_rows t (uv a))))
       \<and> sector_rows (fill_summary t) (uv a) = sector_rows t (uv a)"
proof -
  define t1 where "t1 = assign_summa (\<lambda>r v. r\<lparr>row_F := v\<rparr>) (transform_sum row_F t) t"
  define t2 where "t2 = assign_summa (\<lambda>r v. r\<lparr>row_B := v\<rparr>) (transform_sum row_B t1) t1"
  define t3 where "t3 = assign_summa (\<lambda>r v. r\<lparr>row_Hsr := v\<rparr>)
                 (\<lambda>lv. nan_div (transform_sum row_F t2 lv) (transform_sum row_B t2 lv)) t2"
  define t4 where "t4 = assign_summa (\<lambda>r v. r\<lparr>row_Hmax := v\<rparr>) (transform_max row_Hmax t3) t3"
  define t5 where "t5 = assign_summa (\<lambda>r v. r\<lparr>row_Q := v\<rparr>) (transform_sum row_Q t4) t4"
  define t6 where "t6 = assign_summa (\<lambda>r v. r\<lparr>row_V := v\<rparr>)
                 (\<lambda>lv. nan_div (transform_sum row_Q t5 lv) (transform_sum row_F t5 lv)) t5"
  have fill: "fill_summary t = assign_summa (\<lambda>r v. r\<lparr>row_Shezi := v\<rparr>)
           (\<lambda>lv. nan_div (transform_sum row_Shezi t6 lv) (transform_count t6 lv - 1)) t6"
    by (simp add: fill_summary_def Let_def t1_def t2_def t3_def t4_def t5_def t6_def)
  from assign_summa_member [OF assms(3) [unfolded fill] assms(4)] obtain r6
    where r6: "r6 \<in> set t6" "uchastok r6 = Summa"
      and a6: "a = r6\<lparr>row_Shezi := nan_div (transform_sum row_Shezi t6 (uv r6))
                                      (transform_count t6 (uv r6) - 1)\<rparr>"
    by auto
  from assign_summa_member [OF r6(1) [unfolded t6_def] r6(2)] obtain r5
    where r5: "r5 \<in> set t5" "uchastok r5 = Summa"
      and a5: "r6 = r5\<lparr>row_V := nan_div (transform_sum row_Q t5 (uv r5))
                                  (transform_sum row_F t5 (uv r5))\<rparr>"
    by auto
  from assign_summa_member [OF r5(1) [unfolded t5_def] r5(2)] obtain r4
    where r4: "r4 \<in> set t4" "uchastok r4 = Summa"
      and a4: "r5 = r4\<lparr>row_Q := transform_sum row_Q t4 (uv r4)\<rparr>"
    by auto
  from assign_summa_member [OF r4(1) [unfolded t4_def] r4(2)] obtain r3
    where r3: "r3 \<in> set t3" "uchastok r3 = Summa"
      and a3: "r4 = r3\<lparr>row_Hmax := transform_max row_Hmax t3 (uv r3)\<rparr>"
    by auto
  from assign_summa_member [OF r3(1) [unfolded t3_def] r3(2)] obtain r2
    where r2: "r2 \<in> set t2" "uchastok r2 = Summa"
      and a2: "r3 = r2\<lparr>row_Hsr := nan_div (transform_sum row_F t2 (uv r2))
                                    (transform_sum row_B t2 (uv r2))\<rparr>"
    by auto
  from assign_summa_member [OF r2(1) [unfolded t2_def] r2(2)] obtain r1
    where r1: "r1 \<in> set t1" "uchastok r1 = Summa"
      and a1: "r2 = r1\<lparr>row_B := transform_sum row_B t1 (uv r1)\<rparr>"
    by auto
  from assign_summa_member [OF r1(1) [unfolded t1_def] r1(2)] obtain r0
    where r0: "r0 \<in> set t" "uchastok r0 = Summa"
      and a0: "r1 = r0\<lparr>row_F := transform_sum row_F t (uv r0)\<rparr>"
    by auto
  define lv where "lv = uv r0"
  have uvs: "uv r1 = lv" "uv r2 = lv" "uv r3 = lv" "uv r4 = lv" "uv r5 = lv" "uv r6 = lv"
    "uv a = lv"
    by (simp_all add: a0 a1 a2 a3 a4 a5 a6 lv_def)
  have b0: "r1 = r0\<lparr>row_F := transform_sum row_F t lv\<rparr>"
    by (simp add: a0 lv_def)
  have one: "summa_rows t lv = [r0]"
    unfolding lv_def using assms(1) r0 by (rule single_summa_row)
  have zero: "row_F r0 = 0" "row_B r0 = 0" "row_Q r0 = 0" "row_Shezi r0 = 0"
    using assms(2) r0 by auto
  let ?S = "\<lambda>col. sum_list (map col (sector_rows t lv))"
  have raw: "transform_sum row_F t lv = ?S row_F" "transform_sum row_B t lv = ?S row_B"
    "transform_sum row_Q t lv = ?S row_Q" "transform_sum row_Shezi t lv = ?S row_Shezi"
    by (simp_all add: transform_sum_split one zero)
  have s1: "sector_rows t1 lv = sector_rows t lv" "summa_rows t1 lv = [r1]"
    by (simp_all add: t1_def sector_rows_assign summa_rows_assign one b0)
  have s2: "sector_rows t2 lv = sector_rows t lv" "summa_rows t2 lv = [r2]"
    by (simp_all add: t2_def sector_rows_assign summa_rows_assign s1 a1 uvs)
  have s3: "sector_rows t3 lv = sector_rows t lv" "summa_rows t3 lv = [r3]"
    by (simp_all add: t3_def sector_rows_assign summa_rows_assign s2 a2 uvs)
  have s4: "sector_rows t4 lv = sector_rows t lv" "summa_rows t4 lv = [r4]"
    by (simp_all add: t4_def sector_rows_assign summa_rows_assign s3 a3 uvs)
  have s5: "sector_rows t5 lv = sector_rows t lv" "summa_rows t5 lv = [r5]"
    by (simp_all add: t5_def sector_rows_assign summa_rows_assign s4 a4 uvs)
  have s6: "sector_rows t6 lv = sector_rows t lv" "summa_rows t6 lv = [r6]"
    by (simp_all add: t6_def sector_rows_assign summa_rows_assign s5 a5 uvs)
  have s7: "sector_rows (fill_summary t) lv = sector_rows t lv"
    by (simp add: fill sector_rows_assign s6)
  have F1: "row_F r1 = ?S row_F" by (simp add: b0 raw)
  have B1: "transform_sum row_B t1 lv = ?S row_B"
    by (simp add: transform_sum_split s1 b0 zero)
  have B2: "row_B r2 = ?S row_B" by (simp add: a1 uvs B1)
  have F2: "row_F r2 = ?S row_F" by (simp add: a1 F1)
  have H: "nan_div (transform_sum row_F t2 lv) (transform_sum row_B t2 lv)
             = nan_div (?S row_F) (?S row_B)"
    by (simp add: transform_sum_split s2 F2 B2 nan_div_double)
  have Q4: "transform_sum row_Q t4 lv = ?S row_Q"
    by (simp add: transform_sum_split s4 a3 a2 a1 b0 zero)
  have Q5: "row_Q r5 = ?S row_Q" by (simp add: a4 uvs Q4)
  have F5: "row_F r5 = ?S row_F" by (simp add: a4 a3 a2 F2)
  have V: "nan_div (transform_sum row_Q t5 lv) (transform_sum row_F t5 lv)
             = nan_div (?S row_Q) (?S row_F)"
    by (simp add: transform_sum_split s5 Q5 F5 nan_div_double)
  have C6: "transform_sum row_Shezi t6 lv = ?S row_Shezi"
    by (simp add: transform_sum_split s6 a5 a4 a3 a2 a1 b0 zero)
  have N6: "transform_count t6 lv - 1 = real (length (sector_rows t lv))"
    by (simp add: transform_count_split s6)
  have "row_F a = ?S row_F" by (simp add: a6 a5 F5)
  moreover have "row_B a = ?S row_B" by (simp add: a6 a5 a4 a3 a2 B2)
  moreover have "row_Q a = ?S row_Q" by (simp add: a6 a5 Q5)
  moreover have "row_Hsr a = nan_div (?S row_F) (?S row_B)"
    by (simp add: a6 a5 a4 a3 a2 uvs H)
  moreover have "row_V a = nan_div (?S row_Q) (?S row_F)"
    by (simp add: a6 a5 uvs V)
  moreover have "row_Shezi a = nan_div (?S row_Shezi) (real (length (sector_rows t lv)))"
    by (simp add: a6 uvs C6 N6)
  ultimately show ?thesis using s7 by (simp add: uvs)
qed

theorem aggregate_row_invariant_witness:
  "distinct (map row_index sample_table)
   \<and> filter (\<lambda>r. uchastok r = Summa) sample_table = [r_sum 8, r_sum 9]
   \<and> last (fill_summary sample_table) \<in> set (fill_summary sample_table)
   \<and> row_index (last (fill_summary sample_table)) = (9, Summa)
   \<and> map uchastok (sector_rows sample_table 9) = [''channel'', ''floodplain'']
   \<and> row_F (last (fill_summary sample_table)) = 2 + 1
   \<and> row_B (last (fill_summary sample_table)) = 4 + 4
   \<and> row_Q (last (fill_summary sample_table)) = 2 + 1
   \<and> row_Hsr (last (fill_summary sample_table)) = (2 + 1) / (4 + 4)
   \<and> row_V (last (fill_summary sample_table)) = (2 + 1) / (2 + 1)
   \<and> row_Shezi (last (fill_summary sample_table)) = (30 + 20) / 2"
proof -
  have d: "distinct (map row_index sample_table)"
    by (simp add: sample_table_def row_index_def r_sum_def Summa_def)
  have z: "\<forall>r \<in> set sample_table. uchastok r = Summa
             \<longrightarrow> row_F r = 0 \<and> row_B r = 0 \<and> row_Q r = 0 \<and> row_Shezi r = 0"
    by (simp add: sample_table_def r_sum_def Summa_def)
  have "length (map row_index (fill_summary sample_table)) = length sample_table"
    by (simp only: fill_summary_index length_map)
  then have ne: "fill_summary sample_table \<noteq> []" by (auto simp: sample_table_def)
  then have m: "last (fill_summary sample_table) \<in> set (fill_summary sample_table)"
    by (rule last_in_set)
  have "row_index (last (fill_summary sample_table))
          = last (map row_index (fill_summary sample_table))"
    using ne by (simp add: last_map)
  also have "\<dots> = (9, Summa)"
    by (simp only: fill_summary_index) (simp add: sample_table_def row_index_def r_sum_def)
  finally have i: "row_index (last (fill_summary sample_table)) = (9, Summa)" .
  then have s: "uchastok (last (fill_summary sample_table)) = Summa"
    and u: "uv (last (fill_summary sample_table)) = 9"
    by (simp_all add: row_index_def)
  have rows: "sector_rows sample_table 9 =
     [\<lparr>uchastok = ''channel'', uv = 9, row_F = 2, row_B = 4, row_Hsr = 0.5, row_Hmax = 1,
       row_V = 1, row_Q = 2, row_Shezi = 30\<rparr>,
      \<lparr>uchastok = ''floodplain'', uv = 9, row_F = 1, row_B = 4, row_Hsr = 0.25,
       row_Hmax = 0.5, row_V = 1, row_Q = 1, row_Shezi = 20\<rparr>]"
    by (simp add: sector_rows_def sample_table_def r_sum_def Summa_def)
  have f: "filter (\<lambda>r. uchastok r = Summa) sample_table = [r_sum 8, r_sum 9]"
    by (simp add: sample_table_def r_sum_def Summa_def)
  have "row_F (last (fill_summary sample_table)) = 2 + 1
      \<and> row_B (last (fill_summary sample_table)) = 4 + 4
      \<and> row_Q (last (fill_summary sample_table)) = 2 + 1
      \<and> row_Hsr (last (fill_summary sample_table)) = (2 + 1) / (4 + 4)
      \<and> row_V (last (fill_summary sample_table)) = (2 + 1) / (2 + 1)
      \<and> row_Shezi (last (fill_summary sample_table)) = (30 + 20) / 2"
    using aggregate_row_invariant [OF d z m s]
    by (simp add: u rows nan_div_def)
  then show ?thesis using d f m i by (simp add: rows)
qed

end
